theory Spec2Isabelle
  imports Main "HOL-Library.Word"
begin

section \<open>JavaScript values\<close>

text \<open>
  \<^verbatim>\<open>convertPayload(payload: any)\<close> and \<^verbatim>\<open>convertAttribute(attribute: any)\<close> read
  properties off untyped objects and build object literals. An object is an association
  list in insertion order; reading a property that is not there gives \<^verbatim>\<open>undefined\<close>.
\<close>

datatype jsval = JUndefined | JNull | JBool bool | JNum int | JStr string

type_synonym jsobj = "(string \<times> jsval) list"

definition getprop :: "jsobj \<Rightarrow> string \<Rightarrow> jsval" where
  "getprop obj k = (case map_of obj k of None \<Rightarrow> JUndefined | Some v \<Rightarrow> v)"

text \<open>The test \<^verbatim>\<open>v != null\<close>: false for \<^verbatim>\<open>null\<close> and for \<^verbatim>\<open>undefined\<close>.\<close>

definition not_null :: "jsval \<Rightarrow> bool" where
  "not_null v = (v \<noteq> JUndefined \<and> v \<noteq> JNull)"

text \<open>
  A rejected promise or a thrown exception is a value: \<^verbatim>\<open>new Error(msg)\<close>, a
  \<^verbatim>\<open>TypeError\<close> of the runtime, and the \<^verbatim>\<open>TimeoutError\<close> of promise-timeout.
\<close>

datatype error = Error string | TypeError string | TimeoutError

section \<open>The SDK's transaction model\<close>

text \<open>
  Modelled from the spec: the classes \<^verbatim>\<open>Address\<close>, \<^verbatim>\<open>Fixed64\<close>, \<^verbatim>\<open>Transaction\<close> and
  \<^verbatim>\<open>Transfer\<close> belong to ontology-ts-sdk and are not in the repository. The spec lists what
  the adapter reads from them: version, type, nonce (4-byte little-endian string),
  gasPrice/gasLimit (decimal-string amounts), payer (address object with base58
  rendering), payload (object, shape varies), txAttributes (ordered list of usage/data
  pairs); a transfer-flavoured subtype additionally exposes amount, tokenType and from/to
  addresses. An address is represented by what \<^verbatim>\<open>toBase58()\<close> returns for it.
  \<^verbatim>\<open>tx instanceof Transfer\<close> holds exactly when the \<open>transfer\<close> field is \<open>Some\<close>.
  The fields version, type and payload are optional (\<open>None\<close> is \<^verbatim>\<open>null\<close> or
  \<^verbatim>\<open>undefined\<close>): \<^verbatim>\<open>isTransaction\<close> tests them on any signable.
\<close>

record Address =
  toBase58 :: string

record Fixed64 =
  "value" :: string

datatype amount = AmountNumber int | AmountString string

record Transfer =
  amount :: amount
  tokenType :: string
  "from" :: Address
  to :: Address

record Transaction =
  version :: "int option"
  type :: "int option"
  nonce :: string
  gasPrice :: Fixed64
  gasLimit :: Fixed64
  payer :: Address
  payload :: "jsobj option"
  txAttributes :: "jsobj list"
  transfer :: "Transfer option"

section \<open>The firmware's wire types\<close>

text \<open>
  Modelled from the spec: \<^verbatim>\<open>trezorTypes.ts\<close> (\<^verbatim>\<open>OntologyTransaction\<close>,
  \<^verbatim>\<open>OntologyPayload\<close>, \<^verbatim>\<open>OntologyTxAttribute\<close>) is not among the sources. The spec's
  translated transaction has version, type, nonce (a plain integer), gas price/limit (64-bit
  integers), payer (base58 string), payload, transaction attributes and an optional
  transfer sub-record (amount as 64-bit integer, asset-type code, from/to as base58
  strings). Payloads and attributes are the object literals the code builds.
\<close>

record OntologyTransfer =
  amount :: "64 word"
  asset :: int
  fromAddress :: string
  toAddress :: string

record OntologyTransaction =
  version :: "int option"
  type :: "int option"
  nonce :: "32 word"
  gasPrice :: "64 word"
  gasLimit :: "64 word"
  payer :: string
  payload :: jsobj
  txAttributes :: "jsobj list"
  transferInfo :: "OntologyTransfer option"

section \<open>Library functions the translator calls\<close>

text \<open>
  Modelled from the spec: \<^verbatim>\<open>Long.fromString\<close> of the long library is not in the
  repository. The spec: gas price and gas limit are "decimal-string-valued amounts; parsed
  into 64-bit integers (values may exceed 53-bit safe-integer range, so decimal-string
  parsing into a 64-bit integer type is mandatory, not an approximation)", and the
  translator has "no failure modes other than propagating parse failures from malformed
  numeric strings". A numeral is a non-empty run of decimal digits, with an optional
  leading minus sign; the result is the two's complement 64-bit word of its value.
\<close>

definition dec_digit :: "char \<Rightarrow> nat option" where
  "dec_digit c =
     (let n = (of_char c :: nat) in if 48 \<le> n \<and> n \<le> 57 then Some (n - 48) else None)"

fun parse_dec :: "nat \<Rightarrow> string \<Rightarrow> nat option" where
  "parse_dec acc [] = Some acc"
| "parse_dec acc (c # cs) =
     (case dec_digit c of None \<Rightarrow> None | Some d \<Rightarrow> parse_dec (10 * acc + d) cs)"

definition Long_fromString :: "string \<Rightarrow> error + 64 word" where
  "Long_fromString str =
     (case str of
        [] \<Rightarrow> Inl (Error ''empty string'')
      | c # cs \<Rightarrow>
          if c = CHR ''-'' then
            (if cs = [] then Inl (Error ''empty string'')
             else (case parse_dec 0 cs of
                     None \<Rightarrow> Inl (Error ''malformed number'')
                   | Some n \<Rightarrow> Inr (- (of_nat n))))
          else (case parse_dec 0 str of
                  None \<Rightarrow> Inl (Error ''malformed number'')
                | Some n \<Rightarrow> Inr (of_nat n)))"

text \<open>
  Modelled from the spec: \<^verbatim>\<open>Long.fromValue\<close> of the long library, applied to the
  transfer's amount (\<^verbatim>\<open>number | string\<close>), gives the "amount as 64-bit integer": a
  string goes through \<open>Long_fromString\<close>, a number becomes the signed 64-bit integer
  of that value, saturating outside the signed range.
\<close>

definition Long_fromNumber :: "int \<Rightarrow> 64 word" where
  "Long_fromNumber n =
     (if n \<le> - (2 ^ 63) then word_of_int (- (2 ^ 63))
      else if 2 ^ 63 \<le> n + 1 then word_of_int (2 ^ 63 - 1)
      else word_of_int n)"

definition Long_fromValue :: "amount \<Rightarrow> error + 64 word" where
  "Long_fromValue val =
     (case val of
        AmountNumber n \<Rightarrow> Inr (Long_fromNumber n)
      | AmountString s \<Rightarrow> Long_fromString s)"

text \<open>
  Modelled from the spec: \<^verbatim>\<open>utils.StringReader\<close> of ontology-ts-sdk and its
  \<^verbatim>\<open>readUint32\<close> are not in the repository. The spec: the nonce is "stored as a
  little-endian 4-byte string in the source object; must be decoded to an unsigned 32-bit
  integer". The SDK writes byte strings in hexadecimal, two digits per byte (as the
  payload code of the repository's test does); the reader takes the first four bytes,
  least significant first, and fails on a string that does not hold four bytes.
\<close>

definition hex_digit :: "char \<Rightarrow> nat option" where
  "hex_digit c =
     (let n = (of_char c :: nat) in
      if 48 \<le> n \<and> n \<le> 57 then Some (n - 48)
      else if 97 \<le> n \<and> n \<le> 102 then Some (n - 87)
      else if 65 \<le> n \<and> n \<le> 70 then Some (n - 55)
      else None)"

fun hex_bytes :: "string \<Rightarrow> nat list option" where
  "hex_bytes [] = Some []"
| "hex_bytes [c] = None"
| "hex_bytes (h # l # cs) =
     (case hex_digit h of None \<Rightarrow> None | Some a \<Rightarrow>
      (case hex_digit l of None \<Rightarrow> None | Some b \<Rightarrow>
       (case hex_bytes cs of None \<Rightarrow> None | Some bs \<Rightarrow> Some ((16 * a + b) # bs))))"

fun le_value :: "nat list \<Rightarrow> nat" where
  "le_value [] = 0"
| "le_value (b # bs) = b + 256 * le_value bs"

definition StringReader_readUint32 :: "string \<Rightarrow> error + 32 word" where
  "StringReader_readUint32 str =
     (case hex_bytes str of
        None \<Rightarrow> Inl (Error ''malformed byte string'')
      | Some bs \<Rightarrow>
          if length bs < 4 then Inl (Error ''malformed byte string'')
          else Inr (of_nat (le_value (take 4 bs))))"

section \<open>Transaction Translator (trezorProxy.ts)\<close>

text \<open>
  \<^verbatim>\<open>BIP44(index: number = 0)\<close>: the default applies when the argument is
  \<^verbatim>\<open>undefined\<close> (\<open>None\<close>). The elements are JavaScript numbers.
\<close>

definition BIP44 :: "int option \<Rightarrow> int list" where
  "BIP44 index =
     [0x8000002C,
      0x80000378,
      0x80000000,
      0x00000000,
      (case index of None \<Rightarrow> 0 | Some i \<Rightarrow> i)]"

definition isTransaction :: "Transaction \<Rightarrow> bool" where
  "isTransaction signable =
     (Transaction.version signable \<noteq> None \<and> Transaction.type signable \<noteq> None
      \<and> Transaction.payload signable \<noteq> None)"

definition convertPayload :: "jsobj \<Rightarrow> jsobj" where
  "convertPayload payload' =
     (if not_null (getprop payload' ''name'') then
        [(''type'', JNum 2),
         (''code'', getprop payload' ''code''),
         (''needStorage'', getprop payload' ''needStorage''),
         (''name'', getprop payload' ''name''),
         (''version'', getprop payload' ''version''),
         (''author'', getprop payload' ''author''),
         (''email'', getprop payload' ''email''),
         (''description'', getprop payload' ''description'')]
      else
        [(''type'', JNum 1),
         (''code'', getprop payload' ''code'')])"

definition convertAttribute :: "jsobj \<Rightarrow> jsobj" where
  "convertAttribute attribute =
     [(''usage'', getprop attribute ''usage''),
      (''data'', getprop attribute ''data'')]"

text \<open>
  The object literal evaluates its fields in order, so the first failing one decides the
  error; reading \<^verbatim>\<open>payload.name\<close> of a null payload is a \<^verbatim>\<open>TypeError\<close>.
\<close>

definition convertToTrezorTransaction :: "Transaction \<Rightarrow> error + OntologyTransaction" where
  "convertToTrezorTransaction tx =
     (case StringReader_readUint32 (Transaction.nonce tx) of
        Inl e \<Rightarrow> Inl e
      | Inr n \<Rightarrow>
     (case Long_fromString (Fixed64.value (Transaction.gasPrice tx)) of
        Inl e \<Rightarrow> Inl e
      | Inr price \<Rightarrow>
     (case Long_fromString (Fixed64.value (Transaction.gasLimit tx)) of
        Inl e \<Rightarrow> Inl e
      | Inr limit \<Rightarrow>
     (case Transaction.payload tx of
        None \<Rightarrow> Inl (TypeError ''Cannot read property name of null'')
      | Some pl \<Rightarrow>
     (let transaction =
        \<lparr> OntologyTransaction.version = Transaction.version tx,
          OntologyTransaction.type = Transaction.type tx,
          OntologyTransaction.nonce = n,
          OntologyTransaction.gasPrice = price,
          OntologyTransaction.gasLimit = limit,
          OntologyTransaction.payer = toBase58 (Transaction.payer tx),
          OntologyTransaction.payload = convertPayload pl,
          OntologyTransaction.txAttributes = map convertAttribute (Transaction.txAttributes tx),
          OntologyTransaction.transferInfo = None \<rparr>
      in
        (case transfer tx of
           None \<Rightarrow> Inr transaction
         | Some t \<Rightarrow>
             (case Long_fromValue (Transfer.amount t) of
                Inl e \<Rightarrow> Inl e
              | Inr a \<Rightarrow>
                  Inr (transaction
                    \<lparr> transferInfo := Some
                        \<lparr> OntologyTransfer.amount = a,
                          asset = (if tokenType t = ''ONT'' then 1 else 2),
                          fromAddress = toBase58 (from t),
                          toAddress = toBase58 (to t) \<rparr> \<rparr>))))))))"

section \<open>Device Session Gateway (trezorProxy.ts)\<close>

text \<open>
  The transport (trezor.js) is outside the repository: a session answers a typed call
  (request type name, response type name, payload) with a response or an error, and a
  device hands out its session or fails. Every typed call that is issued is appended to
  a log, which the operations take and return.
\<close>

datatype call_payload =
    GetPublicKeyPayload (address_n: "int list") (show_display: bool)
  | SignTxPayload (address_n: "int list") (transaction: OntologyTransaction)

type_synonym typed_call = "string \<times> string \<times> call_payload"

record OntologyMessage =
  public_key :: "string option"
  signature :: "string option"

record response =
  message :: OntologyMessage

type_synonym session = "string \<Rightarrow> string \<Rightarrow> call_payload \<Rightarrow> error + response"

record device =
  waitForSession :: "error + session"

definition typedCall ::
  "session \<Rightarrow> string \<Rightarrow> string \<Rightarrow> call_payload \<Rightarrow> typed_call list
    \<Rightarrow> (error + response) \<times> typed_call list" where
  "typedCall session request_type response_type body calls =
     (session request_type response_type body, calls @ [(request_type, response_type, body)])"

definition waitForSessionAndRun ::
  "device \<Rightarrow> (session \<Rightarrow> typed_call list \<Rightarrow> (error + 'a) \<times> typed_call list)
    \<Rightarrow> typed_call list \<Rightarrow> (error + 'a) \<times> typed_call list" where
  "waitForSessionAndRun dev fn calls =
     (case waitForSession dev of
        Inl e \<Rightarrow> (Inl e, calls)
      | Inr session \<Rightarrow> fn session calls)"

text \<open>
  The module variable \<^verbatim>\<open>gDevice\<close> is written by the transport's connect and
  disconnect events. A call is given the values that the tests of its loop
  \<^verbatim>\<open>while (gDevice === null) await sleep(5000)\<close> read, in order, until
  \<^verbatim>\<open>timeout(getDevice(), 5000)\<close> rejects: the first is the value at the call; whether the
  test after the first sleep still counts is decided by the host's timers (the sleep and
  the timeout are due together). When the reads end without a device, promise-timeout
  rejects with its \<^verbatim>\<open>TimeoutError\<close>.
\<close>

fun getDevice :: "device option list \<Rightarrow> device option" where
  "getDevice [] = None"
| "getDevice (gDevice # later) =
     (case gDevice of None \<Rightarrow> getDevice later | Some dev \<Rightarrow> Some dev)"

definition getDeviceWithTimout :: "device option list \<Rightarrow> error + device" where
  "getDeviceWithTimout reads =
     (case getDevice reads of None \<Rightarrow> Inl TimeoutError | Some dev \<Rightarrow> Inr dev)"

text \<open>\<^verbatim>\<open>console.log(e)\<close> appends the error to the console.\<close>

definition isTrezorSupported ::
  "device option list \<Rightarrow> error list \<Rightarrow> (error + bool) \<times> error list" where
  "isTrezorSupported reads console =
     (case getDeviceWithTimout reads of
        Inr dev \<Rightarrow> (Inr True, console)
      | Inl e \<Rightarrow> (Inr False, console @ [e]))"

definition getPublicKey ::
  "device option list \<Rightarrow> int \<Rightarrow> typed_call list \<Rightarrow> (error + string option) \<times> typed_call list" where
  "getPublicKey reads index calls =
     (case getDeviceWithTimout reads of
        Inl e \<Rightarrow> (Inl e, calls)
      | Inr dev \<Rightarrow>
          (case waitForSessionAndRun dev
                  (\<lambda>session calls.
                     let path = BIP44 (Some index) in
                     typedCall session ''OntologyGetPublicKey'' ''OntologyPublicKey''
                       (GetPublicKeyPayload path False) calls)
                  calls of
             (Inl e, calls') \<Rightarrow> (Inl e, calls')
           | (Inr result, calls') \<Rightarrow> (Inr (public_key (message result)), calls')))"

definition computesSignature ::
  "device option list \<Rightarrow> int \<Rightarrow> Transaction \<Rightarrow> typed_call list
    \<Rightarrow> (error + string option) \<times> typed_call list" where
  "computesSignature reads index signable calls =
     (case getDeviceWithTimout reads of
        Inl e \<Rightarrow> (Inl e, calls)
      | Inr dev \<Rightarrow>
          (case waitForSessionAndRun dev
                  (\<lambda>session calls.
                     let path = BIP44 (Some index) in
                     if isTransaction signable then
                       (case convertToTrezorTransaction signable of
                          Inl e \<Rightarrow> (Inl e, calls)
                        | Inr trezorTransaction \<Rightarrow>
                            typedCall session ''OntologySignTx'' ''OntologySignedTx''
                              (SignTxPayload path trezorTransaction) calls)
                     else
                       (Inl (Error ''Unsupported Signable implementation. Only Transaction is supported.''),
                        calls))
                  calls of
             (Inl e, calls') \<Rightarrow> (Inl e, calls')
           | (Inr result, calls') \<Rightarrow> (Inr (signature (message result)), calls')))"

section \<open>Hardware Key Adapter (trezorKey.ts)\<close>

text \<open>
  Modelled from the spec: \<^verbatim>\<open>SignatureScheme\<close>, \<^verbatim>\<open>Signature\<close>, \<^verbatim>\<open>KeyType\<close>,
  \<^verbatim>\<open>CurveLabel\<close>, \<^verbatim>\<open>KeyParameters\<close>, \<^verbatim>\<open>PublicKey\<close> and \<^verbatim>\<open>PrivateKey\<close> belong to
  ontology-ts-sdk and are not in the repository. The spec names one scheme,
  ECDSA-with-SHA256, next to "any other scheme"; a signature is "constructed from (scheme
  tag, raw signature bytes, optional key identifier)"; the adapter has "fixed algorithm =
  ECDSA, fixed curve = secp256r1".
\<close>

datatype SignatureScheme = ECDSAwithSHA256 | OtherScheme string

record Signature =
  algorithm :: SignatureScheme
  "value" :: string
  publicKeyId :: "string option"

datatype KeyType = ECDSA | OtherKeyType string

datatype CurveLabel = SECP256R1 | OtherCurve string

record KeyParameters =
  curve :: CurveLabel

record PublicKey =
  key :: string
  algorithm :: KeyType
  parameters :: KeyParameters

text \<open>
  \<^verbatim>\<open>interface TrezorKey extends PrivateKey\<close>: the private key's own fields, then
  \<^verbatim>\<open>publicKey\<close>, \<^verbatim>\<open>index\<close> and \<^verbatim>\<open>type\<close>. The methods that \<^verbatim>\<open>createExisting\<close>
  assigns are functions of the key (\<^verbatim>\<open>this\<close>).
\<close>

record TrezorKey =
  key :: string
  algorithm :: KeyType
  parameters :: KeyParameters
  publicKey :: PublicKey
  index :: int
  type :: string

definition createExisting :: "int \<Rightarrow> string \<Rightarrow> TrezorKey" where
  "createExisting i pKey =
     \<lparr> TrezorKey.key = [],
       TrezorKey.algorithm = ECDSA,
       TrezorKey.parameters = \<lparr> curve = SECP256R1 \<rparr>,
       publicKey =
         \<lparr> PublicKey.key = pKey,
           PublicKey.algorithm = ECDSA,
           PublicKey.parameters = \<lparr> curve = SECP256R1 \<rparr> \<rparr>,
       index = i,
       TrezorKey.type = ''TREZOR'' \<rparr>"

text \<open>\<^verbatim>\<open>msg: string | Signable\<close>.\<close>

datatype msg = MsgString string | MsgSignable Transaction

definition sign ::
  "TrezorKey \<Rightarrow> msg \<Rightarrow> SignatureScheme option \<Rightarrow> string option \<Rightarrow> error + Signature" where
  "sign this m schema pkId = Inl (Error ''Synchronious signing is not supported with Trezor.'')"

definition isSchemaSupported :: "TrezorKey \<Rightarrow> SignatureScheme \<Rightarrow> bool" where
  "isSchemaSupported this schema = (schema = ECDSAwithSHA256)"

text \<open>
  \<^verbatim>\<open>signed.substr(2)\<close> drops the first two characters; on \<^verbatim>\<open>undefined\<close> (a response
  without a signature field) it is a \<^verbatim>\<open>TypeError\<close>.
\<close>

definition signAsync ::
  "TrezorKey \<Rightarrow> msg \<Rightarrow> SignatureScheme option \<Rightarrow> string option
    \<Rightarrow> device option list \<Rightarrow> typed_call list \<Rightarrow> (error + Signature) \<times> typed_call list" where
  "signAsync this m schema pkId reads calls =
     (let schema = (case schema of None \<Rightarrow> ECDSAwithSHA256 | Some s \<Rightarrow> s) in
      if \<not> isSchemaSupported this schema then
        (Inl (Error ''Signature schema does not match key type.''), calls)
      else
        (case m of
           MsgString str \<Rightarrow>
             (Inl (Error ''Signing only message is not supported. Use Signable object instead.''),
              calls)
         | MsgSignable signable \<Rightarrow>
             (case computesSignature reads (index this) signable calls of
                (Inl e, calls') \<Rightarrow> (Inl e, calls')
              | (Inr None, calls') \<Rightarrow>
                  (Inl (TypeError ''Cannot read property substr of undefined''), calls')
              | (Inr (Some signed'), calls') \<Rightarrow>
                  (Inr \<lparr> Signature.algorithm = schema,
                         Signature.value = drop 2 signed',
                         publicKeyId = pkId \<rparr>,
                   calls'))))"

definition getPublicKey2 :: "TrezorKey \<Rightarrow> PublicKey" where
  "getPublicKey2 this = publicKey this"

definition decrypt :: "TrezorKey \<Rightarrow> string \<Rightarrow> Address \<Rightarrow> string \<Rightarrow> jsobj option \<Rightarrow> TrezorKey" where
  "decrypt this keyphrase address salt params = this"

definition encrypt :: "TrezorKey \<Rightarrow> string \<Rightarrow> Address \<Rightarrow> string \<Rightarrow> jsobj option \<Rightarrow> TrezorKey" where
  "encrypt this keyphrase address salt params = this"

section \<open>Notions the properties are stated with\<close>

text \<open>
  BIP-44 paths: a hardened path element has bit 31 set; the purpose of BIP-44 is 44. The
  SLIP-44 registry of coin types lists 888 for NEO and 1024 for Ontology (ONT).
\<close>

definition hardened :: "int \<Rightarrow> int" where
  "hardened n = 0x80000000 + n"

definition bip44_purpose :: int where
  "bip44_purpose = 44"

definition slip44_NEO :: int where
  "slip44_NEO = 888"

definition slip44_ONT :: int where
  "slip44_ONT = 1024"

text \<open>The decimal numeral of a natural number, most significant digit first.\<close>

fun decimal :: "nat \<Rightarrow> string" where
  "decimal n =
     (if n < 10 then [char_of (48 + n)]
      else decimal (n div 10) @ [char_of (48 + n mod 10)])"

declare decimal.simps [simp del]



text \<open>
  The value of a decimal string in positional notation: every character is one of the ten
  digits, a digit's value is its place in \<open>''0123456789''\<close>, and the digit \<open>i\<close> places
  from the left of \<open>n\<close> digits counts \<open>10 ^ (n - 1 - i)\<close> times.
\<close>

definition is_digit :: "char \<Rightarrow> bool" where
  "is_digit c = (c \<in> set ''0123456789'')"

definition digit_value :: "char \<Rightarrow> nat" where
  "digit_value c = length (takeWhile (\<lambda>d. d \<noteq> c) ''0123456789'')"

definition is_decimal :: "string \<Rightarrow> bool" where
  "is_decimal s = (s \<noteq> [] \<and> list_all is_digit s)"

definition decimal_value :: "string \<Rightarrow> nat" where
  "decimal_value s = (\<Sum>i<length s. digit_value (s ! i) * 10 ^ (length s - Suc i))"

text \<open>
  A 4-byte string: eight hexadecimal digits, in either case, two per byte. Its
  little-endian value counts the first byte once, the second 256 times, and so on.
\<close>

definition is_hex_digit :: "char \<Rightarrow> bool" where
  "is_hex_digit c = (c \<in> set ''0123456789abcdefABCDEF'')"

definition hex_value :: "char \<Rightarrow> nat" where
  "hex_value c =
     (if c \<in> set ''0123456789abcdef''
      then length (takeWhile (\<lambda>d. d \<noteq> c) ''0123456789abcdef'')
      else length (takeWhile (\<lambda>d. d \<noteq> c) ''0123456789ABCDEF''))"

fun is_nonce :: "string \<Rightarrow> bool" where
  "is_nonce [h0, l0, h1, l1, h2, l2, h3, l3] =
     list_all is_hex_digit [h0, l0, h1, l1, h2, l2, h3, l3]"
| "is_nonce s = False"

fun nonce_value :: "string \<Rightarrow> nat" where
  "nonce_value [h0, l0, h1, l1, h2, l2, h3, l3] =
     (16 * hex_value h0 + hex_value l0)
     + 256 * (16 * hex_value h1 + hex_value l1)
     + 65536 * (16 * hex_value h2 + hex_value l2)
     + 16777216 * (16 * hex_value h3 + hex_value l3)"
| "nonce_value s = 0"

text \<open>
  A transaction that the translator has to accept: a 4-byte nonce, decimal gas amounts, a
  payload, and, for a transfer, an amount that is a number or a decimal string.
\<close>

definition well_formed_amount :: "amount \<Rightarrow> bool" where
  "well_formed_amount a = (case a of AmountNumber n \<Rightarrow> True | AmountString s \<Rightarrow> is_decimal s)"

definition translatable :: "Transaction \<Rightarrow> bool" where
  "translatable tx =
     (is_nonce (Transaction.nonce tx)
      \<and> is_decimal (Fixed64.value (Transaction.gasPrice tx))
      \<and> is_decimal (Fixed64.value (Transaction.gasLimit tx))
      \<and> Transaction.payload tx \<noteq> None
      \<and> (case transfer tx of None \<Rightarrow> True | Some tr \<Rightarrow> well_formed_amount (Transfer.amount tr)))"

text \<open>
  The transfer of the repository's test (\<^verbatim>\<open>makeTransferTx('ONT', from, to, '100', '500',
  '30000', payer)\<close>, with the payload code the test expects and one fixed nonce for the
  random one), a deploy payload, a signable that is not a transaction, and a connected
  device that answers every typed call with one signature.
\<close>

definition test_code :: string where
  "test_code = ''00c66b140b045b101bc9fabaf181e251a38e76b73962111b6a7cc814e885e849e7f545ea84e8c555b86c70e4f751c4ec6a7cc80864000000000000006a7cc86c51c1087472616e736665721400000000000000000000000000000000000000010068164f6e746f6c6f67792e4e61746976652e496e766f6b65''"

definition test_transfer :: Transaction where
  "test_transfer =
     \<lparr> Transaction.version = Some 0,
       Transaction.type = Some 209,
       Transaction.nonce = ''78563412'',
       Transaction.gasPrice = \<lparr> Fixed64.value = ''500'' \<rparr>,
       Transaction.gasLimit = \<lparr> Fixed64.value = ''30000'' \<rparr>,
       Transaction.payer = \<lparr> toBase58 = ''AGn8JFPGM5S4jkWhTC89Xtz1Y76sPz29Rc'' \<rparr>,
       Transaction.payload = Some [(''code'', JStr test_code)],
       Transaction.txAttributes = [],
       transfer = Some
         \<lparr> Transfer.amount = AmountString ''100'',
           tokenType = ''ONT'',
           from = \<lparr> toBase58 = ''AGn8JFPGM5S4jkWhTC89Xtz1Y76sPz29Rc'' \<rparr>,
           to = \<lparr> toBase58 = ''AcyLq3tokVpkMBMLALVMWRdVJ83TTgBUwU'' \<rparr> \<rparr> \<rparr>"

definition test_deploy :: jsobj where
  "test_deploy =
     [(''code'', JStr ''54c56b''),
      (''needStorage'', JBool True),
      (''name'', JStr ''token''),
      (''version'', JStr ''1.0''),
      (''author'', JStr ''alice''),
      (''email'', JStr ''alice@example.org''),
      (''description'', JStr ''a contract'')]"

definition test_message :: Transaction where
  "test_message = test_transfer \<lparr> Transaction.payload := None, transfer := None \<rparr>"

definition test_session :: session where
  "test_session request_type response_type body =
     Inr \<lparr> message = \<lparr> public_key = None, signature = Some ''01c0ffee'' \<rparr> \<rparr>"

definition test_device :: device where
  "test_device = \<lparr> waitForSession = Inr test_session \<rparr>"

text \<open>
  Variants of the test's transfer: gas amounts beyond the 53-bit safe-integer range, a
  transfer of another token with a numeric amount, and the same transaction when it is not
  a \<^verbatim>\<open>Transfer\<close>.
\<close>

definition big_gas_transfer :: Transaction where
  "big_gas_transfer =
     test_transfer
       \<lparr> Transaction.gasPrice := \<lparr> Fixed64.value = ''9007199254740993'' \<rparr>,
         Transaction.gasLimit := \<lparr> Fixed64.value = ''9999999999999999'' \<rparr> \<rparr>"

definition ong_transfer :: Transaction where
  "ong_transfer =
     test_transfer
       \<lparr> transfer := Some
           \<lparr> Transfer.amount = AmountNumber 7,
             tokenType = ''ONG'',
             from = \<lparr> toBase58 = ''AcyLq3tokVpkMBMLALVMWRdVJ83TTgBUwU'' \<rparr>,
             to = \<lparr> toBase58 = ''AGn8JFPGM5S4jkWhTC89Xtz1Y76sPz29Rc'' \<rparr> \<rparr> \<rparr>"

definition plain_invoke :: Transaction where
  "plain_invoke = test_transfer \<lparr> transfer := None \<rparr>"

text \<open>The test's transfer with a gas price of \<open>2 ^ 64\<close>, and its translation.\<close>

definition overflow_gas_transfer :: Transaction where
  "overflow_gas_transfer =
     test_transfer \<lparr> Transaction.gasPrice := \<lparr> Fixed64.value = ''18446744073709551616'' \<rparr> \<rparr>"


text \<open>The test's transfer with a nonce written in mixed-case hexadecimal.\<close>

definition upper_nonce_transfer :: Transaction where
  "upper_nonce_transfer = test_transfer \<lparr> Transaction.nonce := ''EFbeADde'' \<rparr>"

section \<open>Decimal numerals and 64-bit integers\<close>

text \<open>Parsing the decimal numeral of \<open>n\<close> gives \<open>n\<close> back.\<close>

lemma dec_digit_char: "d < 10 \<Longrightarrow> dec_digit (char_of (48 + d)) = Some d"
  by (simp add: dec_digit_def Let_def)

lemma parse_dec_append:
  "parse_dec acc (xs @ ys) = (case parse_dec acc xs of None \<Rightarrow> None | Some a \<Rightarrow> parse_dec a ys)"
  by (induction xs arbitrary: acc) (auto split: option.splits)

lemma parse_dec_decimal: "parse_dec 0 (decimal n) = Some n"
proof (induction n rule: decimal.induct)
  case (1 n)
  show ?case
  proof (cases "n < 10")
    case True
    then show ?thesis by (simp add: decimal.simps [of n] dec_digit_char)
  next
    case False
    have d: "dec_digit (char_of (48 + n mod 10)) = Some (n mod 10)"
      by (rule dec_digit_char) simp
    from False 1 have "parse_dec 0 (decimal (n div 10)) = Some (n div 10)" by simp
    with False d show ?thesis
      by (simp add: decimal.simps [of n] parse_dec_append)
  qed
qed

lemma decimal_first: "\<exists>c cs. decimal n = c # cs \<and> c \<noteq> CHR ''-''"
proof -
  have ne: "decimal n \<noteq> []"
    by (subst decimal.simps) simp
  then obtain c cs where eq: "decimal n = c # cs" by (cases "decimal n") auto
  have "parse_dec 0 (c # cs) = Some n" using parse_dec_decimal [of n] eq by simp
  then have "dec_digit c \<noteq> None" by (auto split: option.splits)
  then have "c \<noteq> CHR ''-''" by (auto simp: dec_digit_def)
  with eq show ?thesis by blast
qed

lemma Long_fromString_decimal: "Long_fromString (decimal n) = Inr (of_nat n)"
proof -
  obtain c cs where eq: "decimal n = c # cs" and c: "c \<noteq> CHR ''-''"
    using decimal_first by blast
  have "parse_dec 0 (c # cs) = Some n" using parse_dec_decimal [of n] eq by simp
  with eq c show ?thesis by (simp add: Long_fromString_def del: parse_dec.simps)
qed

text \<open>Within the signed range, the 64-bit word reads back as the number.\<close>

lemma sint_of_nat_64:
  assumes "n < 2 ^ 63"
  shows "sint (of_nat n :: 64 word) = int n"
proof -
  from assms have "int n < 2 ^ 63" by (metis of_nat_less_iff of_nat_numeral of_nat_power)
  then have "signed_take_bit 63 (int n) = int n"
    by (simp add: signed_take_bit_int_eq_self)
  moreover have "sint (word_of_int (int n) :: 64 word) = signed_take_bit 63 (int n)"
    by (simp only: sint_sbintrunc') simp
  ultimately show ?thesis by simp
qed

lemma sint_Long_fromNumber:
  "- (2 ^ 63) \<le> n \<Longrightarrow> n < 2 ^ 63 \<Longrightarrow> sint (Long_fromNumber n) = n"
  by (auto simp: Long_fromNumber_def sint_sbintrunc' signed_take_bit_int_eq_self)

text \<open>The parser agrees with positional notation on every string of digits.\<close>

lemma is_digit_cases:
  "is_digit c \<Longrightarrow> c = CHR ''0'' \<or> c = CHR ''1'' \<or> c = CHR ''2'' \<or> c = CHR ''3'' \<or> c = CHR ''4''
     \<or> c = CHR ''5'' \<or> c = CHR ''6'' \<or> c = CHR ''7'' \<or> c = CHR ''8'' \<or> c = CHR ''9''"
  by (simp add: is_digit_def)

lemma dec_digit_value:
  assumes "is_digit c"
  shows "dec_digit c = Some (digit_value c)"
  using is_digit_cases [OF assms]
  by (elim disjE) (simp_all add: dec_digit_def digit_value_def)

lemma digit_not_minus:
  assumes "is_digit c"
  shows "c \<noteq> CHR ''-''"
  using is_digit_cases [OF assms]
  by (elim disjE) simp_all

lemma decimal_value_snoc: "decimal_value (s @ [c]) = 10 * decimal_value s + digit_value c"
proof -
  have "(\<Sum>i<length s. digit_value ((s @ [c]) ! i) * 10 ^ (Suc (length s) - Suc i))
      = (\<Sum>i<length s. 10 * (digit_value (s ! i) * 10 ^ (length s - Suc i)))"
  proof (rule sum.cong)
    fix i assume "i \<in> {..<length s}"
    then have i: "i < length s" by simp
    then have "Suc (length s) - Suc i = Suc (length s - Suc i)" by simp
    with i show "digit_value ((s @ [c]) ! i) * 10 ^ (Suc (length s) - Suc i)
        = 10 * (digit_value (s ! i) * 10 ^ (length s - Suc i))"
      by (simp add: nth_append)
  qed simp
  then show ?thesis
    by (simp add: decimal_value_def sum_distrib_left)
qed

lemma parse_dec_value: "list_all is_digit s \<Longrightarrow> parse_dec 0 s = Some (decimal_value s)"
proof (induction s rule: rev_induct)
  case Nil
  then show ?case by (simp add: decimal_value_def)
next
  case (snoc c s)
  then have "parse_dec 0 s = Some (decimal_value s)" and "is_digit c" by simp_all
  then show ?case
    by (simp add: parse_dec_append dec_digit_value decimal_value_snoc)
qed

lemma Long_fromString_value:
  assumes "is_decimal s"
  shows "Long_fromString s = Inr (of_nat (decimal_value s))"
proof -
  from assms obtain c cs where s: "s = c # cs" and c: "is_digit c" and all: "list_all is_digit s"
    by (cases s) (auto simp: is_decimal_def)
  from c have "c \<noteq> CHR ''-''" by (rule digit_not_minus)
  with s parse_dec_value [OF all] show ?thesis
    by (simp add: Long_fromString_def del: parse_dec.simps)
qed


lemma unat_of_nat_64: "unat (of_nat n :: 64 word) = n mod 2 ^ 64"
  by (simp add: unat_of_nat)

lemma Long_fromValue_succeeds:
  "well_formed_amount a \<Longrightarrow> \<exists>w. Long_fromValue a = Inr w"
  by (cases a) (simp_all add: well_formed_amount_def Long_fromValue_def Long_fromString_value)

section \<open>Hexadecimal byte strings and 32-bit integers\<close>






text \<open>The reader agrees with the little-endian value on every 4-byte string.\<close>

lemma is_hex_digit_cases:
  "is_hex_digit c \<Longrightarrow> c = CHR ''0'' \<or> c = CHR ''1'' \<or> c = CHR ''2'' \<or> c = CHR ''3'' \<or> c = CHR ''4'' \<or> c = CHR ''5'' \<or> c = CHR ''6'' \<or> c = CHR ''7'' \<or> c = CHR ''8'' \<or> c = CHR ''9'' \<or> c = CHR ''a'' \<or> c = CHR ''b'' \<or> c = CHR ''c'' \<or> c = CHR ''d'' \<or> c = CHR ''e'' \<or> c = CHR ''f'' \<or> c = CHR ''A'' \<or> c = CHR ''B'' \<or> c = CHR ''C'' \<or> c = CHR ''D'' \<or> c = CHR ''E'' \<or> c = CHR ''F''"
  by (simp add: is_hex_digit_def)

lemma hex_digit_value:
  assumes "is_hex_digit c"
  shows "hex_digit c = Some (hex_value c)"
  using is_hex_digit_cases [OF assms]
  by (elim disjE) (simp_all add: hex_digit_def hex_value_def)


lemma readUint32_chars:
  assumes "is_hex_digit h0" "is_hex_digit l0" "is_hex_digit h1" "is_hex_digit l1"
    "is_hex_digit h2" "is_hex_digit l2" "is_hex_digit h3" "is_hex_digit l3"
  shows "StringReader_readUint32 [h0, l0, h1, l1, h2, l2, h3, l3] =
           Inr (of_nat (nonce_value [h0, l0, h1, l1, h2, l2, h3, l3]))"
proof -
  define b0 where "b0 = 16 * hex_value h0 + hex_value l0"
  define b1 where "b1 = 16 * hex_value h1 + hex_value l1"
  define b2 where "b2 = 16 * hex_value h2 + hex_value l2"
  define b3 where "b3 = 16 * hex_value h3 + hex_value l3"
  from assms have bytes: "hex_bytes [h0, l0, h1, l1, h2, l2, h3, l3] = Some [b0, b1, b2, b3]"
    by (simp add: hex_digit_value b0_def b1_def b2_def b3_def)
  have v: "le_value (take 4 [b0, b1, b2, b3]) = nonce_value [h0, l0, h1, l1, h2, l2, h3, l3]"
    by (simp add: b0_def b1_def b2_def b3_def)
  have "StringReader_readUint32 [h0, l0, h1, l1, h2, l2, h3, l3] =
      Inr (of_nat (le_value (take 4 [b0, b1, b2, b3])))"
    unfolding StringReader_readUint32_def bytes
    by (simp del: le_value.simps take_Cons_numeral)
  then show ?thesis
    by (simp only: v)
qed

lemma readUint32_value:
  "is_nonce s \<Longrightarrow> StringReader_readUint32 s = Inr (of_nat (nonce_value s))"
  by (cases s rule: is_nonce.cases) (simp_all add: readUint32_chars del: nonce_value.simps)



section \<open>Facts about the translator, the gateway and the test transactions\<close>


text \<open>Every well-formed transaction is translated.\<close>

lemma translation_succeeds:
  assumes "translatable tx"
  shows "\<exists>t. convertToTrezorTransaction tx = Inr t"
proof -
  from assms have n: "StringReader_readUint32 (Transaction.nonce tx) =
      Inr (of_nat (nonce_value (Transaction.nonce tx)))"
    by (simp add: translatable_def readUint32_value)
  from assms have p: "Long_fromString (Fixed64.value (Transaction.gasPrice tx)) =
      Inr (of_nat (decimal_value (Fixed64.value (Transaction.gasPrice tx))))"
    by (simp add: translatable_def Long_fromString_value)
  from assms have l: "Long_fromString (Fixed64.value (Transaction.gasLimit tx)) =
      Inr (of_nat (decimal_value (Fixed64.value (Transaction.gasLimit tx))))"
    by (simp add: translatable_def Long_fromString_value)
  from assms obtain pl where pl: "Transaction.payload tx = Some pl"
    by (auto simp: translatable_def)
  show ?thesis
  proof (cases "transfer tx")
    case None
    with n p l pl show ?thesis
      by (simp add: convertToTrezorTransaction_def Let_def)
  next
    case (Some tr)
    with assms have "well_formed_amount (Transfer.amount tr)"
      by (simp add: translatable_def)
    then obtain w where "Long_fromValue (Transfer.amount tr) = Inr w"
      using Long_fromValue_succeeds by blast
    with Some n p l pl show ?thesis
      by (simp add: convertToTrezorTransaction_def Let_def)
  qed
qed

text \<open>What a translated transaction holds in its transfer sub-record.\<close>

lemma transfer_sub_record_values:
  assumes "convertToTrezorTransaction tx = Inr t"
  shows "(transfer tx = None \<longrightarrow> transferInfo t = None)
    \<and> (\<forall>tr. transfer tx = Some tr \<longrightarrow>
          (\<exists>ti. transferInfo t = Some ti
             \<and> Long_fromValue (Transfer.amount tr) = Inr (OntologyTransfer.amount ti)
             \<and> (tokenType tr = ''ONT'' \<longrightarrow> asset ti = 1)
             \<and> (tokenType tr \<noteq> ''ONT'' \<longrightarrow> asset ti = 2)
             \<and> fromAddress ti = toBase58 (from tr)
             \<and> toAddress ti = toBase58 (to tr)
             \<and> (\<forall>n. Transfer.amount tr = AmountNumber n \<and> - (2 ^ 63) \<le> n \<and> n < 2 ^ 63 \<longrightarrow>
                   sint (OntologyTransfer.amount ti) = n)
             \<and> (\<forall>s. Transfer.amount tr = AmountString s \<and> is_decimal s \<longrightarrow>
                   unat (OntologyTransfer.amount ti) = decimal_value s mod 2 ^ 64)
             \<and> (\<forall>n. Transfer.amount tr = AmountString (decimal n) \<and> n < 2 ^ 63 \<longrightarrow>
                   sint (OntologyTransfer.amount ti) = int n)))"
proof (intro conjI allI impI)
  assume "transfer tx = None"
  with assms show "transferInfo t = None"
    by (auto simp: convertToTrezorTransaction_def Let_def split: sum.splits option.splits)
next
  fix tr
  assume tr: "transfer tx = Some tr"
  with assms obtain a where a: "Long_fromValue (Transfer.amount tr) = Inr a"
    and ti: "transferInfo t = Some
       \<lparr> OntologyTransfer.amount = a,
         asset = (if tokenType tr = ''ONT'' then 1 else 2),
         fromAddress = toBase58 (from tr),
         toAddress = toBase58 (to tr) \<rparr>"
    by (auto simp: convertToTrezorTransaction_def Let_def split: sum.splits option.splits)
  have num: "\<forall>n. Transfer.amount tr = AmountNumber n \<and> - (2 ^ 63) \<le> n \<and> n < 2 ^ 63 \<longrightarrow>
      sint a = n"
    using a by (auto simp: Long_fromValue_def sint_Long_fromNumber)
  have val: "\<forall>s. Transfer.amount tr = AmountString s \<and> is_decimal s \<longrightarrow>
      unat a = decimal_value s mod 2 ^ 64"
    using a by (auto simp: Long_fromValue_def Long_fromString_value unat_of_nat_64)
  have str: "\<forall>n. Transfer.amount tr = AmountString (decimal n) \<and> n < 2 ^ 63 \<longrightarrow>
      sint a = int n"
    using a by (auto simp: Long_fromValue_def Long_fromString_decimal sint_of_nat_64)
  from a ti num val str
  show "\<exists>ti. transferInfo t = Some ti
             \<and> Long_fromValue (Transfer.amount tr) = Inr (OntologyTransfer.amount ti)
             \<and> (tokenType tr = ''ONT'' \<longrightarrow> asset ti = 1)
             \<and> (tokenType tr \<noteq> ''ONT'' \<longrightarrow> asset ti = 2)
             \<and> fromAddress ti = toBase58 (from tr)
             \<and> toAddress ti = toBase58 (to tr)
             \<and> (\<forall>n. Transfer.amount tr = AmountNumber n \<and> - (2 ^ 63) \<le> n \<and> n < 2 ^ 63 \<longrightarrow>
                   sint (OntologyTransfer.amount ti) = n)
             \<and> (\<forall>s. Transfer.amount tr = AmountString s \<and> is_decimal s \<longrightarrow>
                   unat (OntologyTransfer.amount ti) = decimal_value s mod 2 ^ 64)
             \<and> (\<forall>n. Transfer.amount tr = AmountString (decimal n) \<and> n < 2 ^ 63 \<longrightarrow>
                   sint (OntologyTransfer.amount ti) = int n)"
    by simp
qed




text \<open>The translations of the test transactions.\<close>

lemma convert_test_transfer:
  "convertToTrezorTransaction test_transfer =
     Inr \<lparr> OntologyTransaction.version = Some 0,
           OntologyTransaction.type = Some 209,
           OntologyTransaction.nonce = 0x12345678,
           OntologyTransaction.gasPrice = 500,
           OntologyTransaction.gasLimit = 30000,
           OntologyTransaction.payer = ''AGn8JFPGM5S4jkWhTC89Xtz1Y76sPz29Rc'',
           OntologyTransaction.payload = [(''type'', JNum 1), (''code'', JStr test_code)],
           OntologyTransaction.txAttributes = [],
           transferInfo = Some
             \<lparr> OntologyTransfer.amount = 100,
               asset = 1,
               fromAddress = ''AGn8JFPGM5S4jkWhTC89Xtz1Y76sPz29Rc'',
               toAddress = ''AcyLq3tokVpkMBMLALVMWRdVJ83TTgBUwU'' \<rparr> \<rparr>"
  by (simp add: convertToTrezorTransaction_def test_transfer_def StringReader_readUint32_def
      hex_digit_def Long_fromString_def Long_fromValue_def dec_digit_def convertPayload_def
      getprop_def not_null_def Let_def)


lemma convert_big_gas:
  "convertToTrezorTransaction big_gas_transfer =
     Inr \<lparr> OntologyTransaction.version = Some 0,
           OntologyTransaction.type = Some 209,
           OntologyTransaction.nonce = 0x12345678,
           OntologyTransaction.gasPrice = 9007199254740993,
           OntologyTransaction.gasLimit = 9999999999999999,
           OntologyTransaction.payer = ''AGn8JFPGM5S4jkWhTC89Xtz1Y76sPz29Rc'',
           OntologyTransaction.payload = [(''type'', JNum 1), (''code'', JStr test_code)],
           OntologyTransaction.txAttributes = [],
           transferInfo = Some
             \<lparr> OntologyTransfer.amount = 100,
               asset = 1,
               fromAddress = ''AGn8JFPGM5S4jkWhTC89Xtz1Y76sPz29Rc'',
               toAddress = ''AcyLq3tokVpkMBMLALVMWRdVJ83TTgBUwU'' \<rparr> \<rparr>"
  by (simp add: convertToTrezorTransaction_def big_gas_transfer_def test_transfer_def
      StringReader_readUint32_def
      hex_digit_def Long_fromString_def Long_fromValue_def dec_digit_def convertPayload_def
      getprop_def not_null_def Let_def)

lemma convert_ong_transfer:
  "convertToTrezorTransaction ong_transfer =
     Inr \<lparr> OntologyTransaction.version = Some 0,
           OntologyTransaction.type = Some 209,
           OntologyTransaction.nonce = 0x12345678,
           OntologyTransaction.gasPrice = 500,
           OntologyTransaction.gasLimit = 30000,
           OntologyTransaction.payer = ''AGn8JFPGM5S4jkWhTC89Xtz1Y76sPz29Rc'',
           OntologyTransaction.payload = [(''type'', JNum 1), (''code'', JStr test_code)],
           OntologyTransaction.txAttributes = [],
           transferInfo = Some
             \<lparr> OntologyTransfer.amount = 7,
               asset = 2,
               fromAddress = ''AcyLq3tokVpkMBMLALVMWRdVJ83TTgBUwU'',
               toAddress = ''AGn8JFPGM5S4jkWhTC89Xtz1Y76sPz29Rc'' \<rparr> \<rparr>"
  by (simp add: convertToTrezorTransaction_def ong_transfer_def test_transfer_def
      StringReader_readUint32_def hex_digit_def Long_fromString_def Long_fromValue_def
      Long_fromNumber_def dec_digit_def convertPayload_def getprop_def not_null_def Let_def)

lemma convert_plain_invoke:
  "convertToTrezorTransaction plain_invoke =
     Inr \<lparr> OntologyTransaction.version = Some 0,
           OntologyTransaction.type = Some 209,
           OntologyTransaction.nonce = 0x12345678,
           OntologyTransaction.gasPrice = 500,
           OntologyTransaction.gasLimit = 30000,
           OntologyTransaction.payer = ''AGn8JFPGM5S4jkWhTC89Xtz1Y76sPz29Rc'',
           OntologyTransaction.payload = [(''type'', JNum 1), (''code'', JStr test_code)],
           OntologyTransaction.txAttributes = [],
           transferInfo = None \<rparr>"
  by (simp add: convertToTrezorTransaction_def plain_invoke_def test_transfer_def
      StringReader_readUint32_def hex_digit_def Long_fromString_def Long_fromValue_def
      dec_digit_def convertPayload_def getprop_def not_null_def Let_def)



lemma translatable_tests:
  "translatable test_transfer"
  "translatable big_gas_transfer"
  "translatable ong_transfer"
  "translatable plain_invoke"
  "translatable overflow_gas_transfer"
  "translatable upper_nonce_transfer"
  by (simp_all add: translatable_def test_transfer_def big_gas_transfer_def ong_transfer_def
      plain_invoke_def overflow_gas_transfer_def upper_nonce_transfer_def is_decimal_def
      is_digit_def is_hex_digit_def well_formed_amount_def)



section \<open>Payload discrimination\<close>

text \<open>
  Claim C1. For every payload object given to \<open>convertPayload\<close>: if the payload
  carries a name (\<^verbatim>\<open>payload.name != null\<close>), the translated payload has type tag 2 and
  the fields code, needStorage, name, version, author, email and description, each read
  from the source unchanged; otherwise it has type tag 1 and, besides the tag, only the
  code field, read from the source unchanged.
\<close>

theorem convertPayload_discriminates:
  "(not_null (getprop p ''name'') \<longrightarrow>
      map fst (convertPayload p) =
        [''type'', ''code'', ''needStorage'', ''name'', ''version'', ''author'', ''email'',
         ''description'']
      \<and> getprop (convertPayload p) ''type'' = JNum 2
      \<and> (\<forall>k \<in> set [''code'', ''needStorage'', ''name'', ''version'', ''author'', ''email'',
                    ''description''].
            getprop (convertPayload p) k = getprop p k))
   \<and> (\<not> not_null (getprop p ''name'') \<longrightarrow>
      map fst (convertPayload p) = [''type'', ''code'']
      \<and> getprop (convertPayload p) ''type'' = JNum 1
      \<and> getprop (convertPayload p) ''code'' = getprop p ''code'')"
  by (simp add: convertPayload_def getprop_def)

theorem convertPayload_discriminates_witness:
  "not_null (getprop test_deploy ''name'')
   \<and> getprop (convertPayload test_deploy) ''type'' = JNum 2
   \<and> getprop (convertPayload test_deploy) ''author'' = JStr ''alice''
   \<and> getprop (convertPayload test_deploy) ''needStorage'' = JBool True
   \<and> \<not> not_null (getprop [(''code'', JStr ''00c66b'')] ''name'')
   \<and> convertPayload [(''code'', JStr ''00c66b'')] = [(''type'', JNum 1), (''code'', JStr ''00c66b'')]"
  using convertPayload_discriminates [of test_deploy]
    convertPayload_discriminates [of "[(''code'', JStr ''00c66b'')]"]
  by (simp add: test_deploy_def getprop_def not_null_def convertPayload_def)

section \<open>The transfer sub-record\<close>

text \<open>
  Claim C2. Every well-formed transaction is translated, and for every translated
  transaction: when the source is a transfer, the result carries a transfer sub-record
  whose amount is the 64-bit integer of the source amount (equal to it within the signed
  64-bit range, and to a decimal string's value modulo \<open>2 ^ 64\<close>), whose asset code is 1
  for the token symbol "ONT" and 2 for any other symbol, and whose from and to addresses
  are the base58 renderings of the source's; when the source is not a transfer, there is
  no transfer sub-record.
\<close>

theorem transfer_sub_record:
  "(translatable tx \<longrightarrow> (\<exists>t. convertToTrezorTransaction tx = Inr t))
   \<and> (\<forall>t. convertToTrezorTransaction tx = Inr t \<longrightarrow>
        (transfer tx = None \<longrightarrow> transferInfo t = None)
        \<and> (\<forall>tr. transfer tx = Some tr \<longrightarrow>
          (\<exists>ti. transferInfo t = Some ti
             \<and> Long_fromValue (Transfer.amount tr) = Inr (OntologyTransfer.amount ti)
             \<and> (tokenType tr = ''ONT'' \<longrightarrow> asset ti = 1)
             \<and> (tokenType tr \<noteq> ''ONT'' \<longrightarrow> asset ti = 2)
             \<and> fromAddress ti = toBase58 (from tr)
             \<and> toAddress ti = toBase58 (to tr)
             \<and> (\<forall>n. Transfer.amount tr = AmountNumber n \<and> - (2 ^ 63) \<le> n \<and> n < 2 ^ 63 \<longrightarrow>
                   sint (OntologyTransfer.amount ti) = n)
             \<and> (\<forall>s. Transfer.amount tr = AmountString s \<and> is_decimal s \<longrightarrow>
                   unat (OntologyTransfer.amount ti) = decimal_value s mod 2 ^ 64)
             \<and> (\<forall>n. Transfer.amount tr = AmountString (decimal n) \<and> n < 2 ^ 63 \<longrightarrow>
                   sint (OntologyTransfer.amount ti) = int n))))"
  using translation_succeeds [of tx] transfer_sub_record_values [of tx]
  by blast

theorem transfer_sub_record_witness:
  "translatable test_transfer
   \<and> (case convertToTrezorTransaction test_transfer of
      Inl e \<Rightarrow> False
    | Inr t \<Rightarrow>
        transferInfo t = Some
          \<lparr> OntologyTransfer.amount = 100, asset = 1,
            fromAddress = ''AGn8JFPGM5S4jkWhTC89Xtz1Y76sPz29Rc'',
            toAddress = ''AcyLq3tokVpkMBMLALVMWRdVJ83TTgBUwU'' \<rparr>)
   \<and> translatable ong_transfer
   \<and> (case convertToTrezorTransaction ong_transfer of
      Inl e \<Rightarrow> False
    | Inr t \<Rightarrow>
        transferInfo t = Some
          \<lparr> OntologyTransfer.amount = 7, asset = 2,
            fromAddress = ''AcyLq3tokVpkMBMLALVMWRdVJ83TTgBUwU'',
            toAddress = ''AGn8JFPGM5S4jkWhTC89Xtz1Y76sPz29Rc'' \<rparr>)
   \<and> translatable plain_invoke
   \<and> (case convertToTrezorTransaction plain_invoke of
      Inl e \<Rightarrow> False
    | Inr t \<Rightarrow> transfer plain_invoke = None \<and> transferInfo t = None)"
proof -
  from transfer_sub_record [of test_transfer] translatable_tests(1)
  obtain t1 where c1: "convertToTrezorTransaction test_transfer = Inr t1"
    by blast
  have s1: "transfer test_transfer = Some
       \<lparr> Transfer.amount = AmountString ''100'', tokenType = ''ONT'',
         from = \<lparr> toBase58 = ''AGn8JFPGM5S4jkWhTC89Xtz1Y76sPz29Rc'' \<rparr>,
         to = \<lparr> toBase58 = ''AcyLq3tokVpkMBMLALVMWRdVJ83TTgBUwU'' \<rparr> \<rparr>"
    by (simp add: test_transfer_def)
  have d: "decimal 100 = ''100''"
    by (simp add: decimal.simps char_of_def bit_Suc_0_iff)
  note th1 = transfer_sub_record [of test_transfer, THEN conjunct2, rule_format, OF c1,
      THEN conjunct2, rule_format, OF s1]
  from th1 obtain ti1 where
    i1: "transferInfo t1 = Some ti1" "asset ti1 = 1"
      "fromAddress ti1 = ''AGn8JFPGM5S4jkWhTC89Xtz1Y76sPz29Rc''"
      "toAddress ti1 = ''AcyLq3tokVpkMBMLALVMWRdVJ83TTgBUwU''"
    and n1: "\<forall>n. ''100'' = decimal n \<and> n < 2 ^ 63 \<longrightarrow>
      sint (OntologyTransfer.amount ti1) = int n"
    by (elim exE conjE) simp
  have "(100::nat) < 2 ^ 63" by simp
  with n1 [rule_format, of 100] d have a1: "sint (OntologyTransfer.amount ti1) = 100"
    by simp
  from i1 a1
  have r1: "\<exists>ti. transferInfo t1 = Some ti \<and> asset ti = 1
      \<and> sint (OntologyTransfer.amount ti) = 100
      \<and> fromAddress ti = ''AGn8JFPGM5S4jkWhTC89Xtz1Y76sPz29Rc''
      \<and> toAddress ti = ''AcyLq3tokVpkMBMLALVMWRdVJ83TTgBUwU''"
    by simp
  from transfer_sub_record [of ong_transfer] translatable_tests(3)
  obtain t2 where c2: "convertToTrezorTransaction ong_transfer = Inr t2"
    by blast
  have s2: "transfer ong_transfer = Some
       \<lparr> Transfer.amount = AmountNumber 7, tokenType = ''ONG'',
         from = \<lparr> toBase58 = ''AcyLq3tokVpkMBMLALVMWRdVJ83TTgBUwU'' \<rparr>,
         to = \<lparr> toBase58 = ''AGn8JFPGM5S4jkWhTC89Xtz1Y76sPz29Rc'' \<rparr> \<rparr>"
    by (simp add: ong_transfer_def)
  note th2 = transfer_sub_record [of ong_transfer, THEN conjunct2, rule_format, OF c2,
      THEN conjunct2, rule_format, OF s2]
  from th2 obtain ti2 where
    i2: "transferInfo t2 = Some ti2" "asset ti2 = 2"
      "fromAddress ti2 = ''AcyLq3tokVpkMBMLALVMWRdVJ83TTgBUwU''"
      "toAddress ti2 = ''AGn8JFPGM5S4jkWhTC89Xtz1Y76sPz29Rc''"
      "sint (OntologyTransfer.amount ti2) = 7"
    by (elim exE conjE) simp
  then have r2: "\<exists>ti. transferInfo t2 = Some ti \<and> asset ti = 2
      \<and> sint (OntologyTransfer.amount ti) = 7
      \<and> fromAddress ti = ''AcyLq3tokVpkMBMLALVMWRdVJ83TTgBUwU''
      \<and> toAddress ti = ''AGn8JFPGM5S4jkWhTC89Xtz1Y76sPz29Rc''"
    by simp
  from transfer_sub_record [of plain_invoke] translatable_tests(4)
  obtain t3 where c3: "convertToTrezorTransaction plain_invoke = Inr t3"
    by blast
  have s3: "transfer plain_invoke = None"
    by (simp add: plain_invoke_def)
  from transfer_sub_record [of plain_invoke, THEN conjunct2, rule_format, OF c3] s3
  have r3: "transferInfo t3 = None"
    by blast
  from c1 c2 c3 r1 r2 r3 s3 translatable_tests show ?thesis
    by (auto simp: convert_test_transfer convert_ong_transfer convert_plain_invoke)
qed

section \<open>The derivation path\<close>

text \<open>
  Claim C3, as amended. For every public-key and signing request with index \<open>i\<close>, the
  path sent to the device is the five-element BIP-44 path: hardened purpose 44, hardened
  coin type 888 (the SLIP-44 type registered for NEO, as the source's comment says, and
  not Ontology's 1024), hardened account 0, change 0, and the index \<open>i\<close> as given. The
  operations issue at most this one typed call, and they issue it whenever a device is
  handed over and opens its session (and, for signing, the signable is translated).
\<close>

theorem BIP44_path:
  "BIP44 (Some i) = [hardened bip44_purpose, hardened slip44_NEO, hardened 0, 0, i]
   \<and> (snd (getPublicKey reads i calls) = calls
      \<or> snd (getPublicKey reads i calls) =
          calls @ [(''OntologyGetPublicKey'', ''OntologyPublicKey'',
                    GetPublicKeyPayload
                      [hardened bip44_purpose, hardened slip44_NEO, hardened 0, 0, i] False)])
   \<and> (snd (computesSignature reads i signable calls) = calls
      \<or> (\<exists>t. snd (computesSignature reads i signable calls) =
            calls @ [(''OntologySignTx'', ''OntologySignedTx'',
                      SignTxPayload
                        [hardened bip44_purpose, hardened slip44_NEO, hardened 0, 0, i] t)]))
   \<and> (\<forall>dev session. getDeviceWithTimout reads = Inr dev \<and> waitForSession dev = Inr session \<longrightarrow>
         snd (getPublicKey reads i calls) =
           calls @ [(''OntologyGetPublicKey'', ''OntologyPublicKey'',
                     GetPublicKeyPayload
                       [hardened bip44_purpose, hardened slip44_NEO, hardened 0, 0, i] False)])
   \<and> (\<forall>dev session t. getDeviceWithTimout reads = Inr dev \<and> waitForSession dev = Inr session
         \<and> isTransaction signable \<and> convertToTrezorTransaction signable = Inr t \<longrightarrow>
         snd (computesSignature reads i signable calls) =
           calls @ [(''OntologySignTx'', ''OntologySignedTx'',
                     SignTxPayload
                       [hardened bip44_purpose, hardened slip44_NEO, hardened 0, 0, i] t)])"
  by (auto simp: BIP44_def hardened_def bip44_purpose_def slip44_NEO_def getPublicKey_def
      computesSignature_def waitForSessionAndRun_def typedCall_def Let_def
      split: sum.splits prod.splits)

theorem BIP44_path_witness:
  "getDeviceWithTimout [Some test_device] = Inr test_device
   \<and> waitForSession test_device = Inr test_session
   \<and> snd (getPublicKey [Some test_device] 7 []) =
       [(''OntologyGetPublicKey'', ''OntologyPublicKey'',
         GetPublicKeyPayload [0x8000002C, 0x80000378, 0x80000000, 0, 7] False)]"
  using BIP44_path [of 7 "[Some test_device]" "[]"]
  by (simp add: getDeviceWithTimout_def test_device_def hardened_def bip44_purpose_def
      slip44_NEO_def)

text \<open>
  Claim C3 as stated fails: the coin type of the path is NEO's, so the path for index 0
  is not the one with Ontology's registered coin type.
\<close>

theorem BIP44_coin_type_counterexample:
  "BIP44 (Some 0) ! 1 = hardened slip44_NEO
   \<and> BIP44 (Some 0) \<noteq> [hardened bip44_purpose, hardened slip44_ONT, hardened 0, 0, 0]"
  by (simp add: BIP44_def hardened_def slip44_NEO_def slip44_ONT_def)

section \<open>Nonce and gas amounts\<close>




section \<open>Asynchronous signing\<close>



section \<open>Unsupported operations\<close>

text \<open>
  Claim C6. The unsupported requests fail at once, with no typed call issued and nothing
  retried: synchronous \<open>sign\<close> fails for every input; \<open>isSchemaSupported\<close> holds for
  ECDSA-with-SHA256 only, and \<open>signAsync\<close> fails for every other requested scheme;
  \<open>signAsync\<close> fails whenever the message is a plain string. In each case the log of
  typed calls is returned as it was given.
\<close>

theorem unsupported_requests_fail:
  "sign this m schema pkId = Inl (Error ''Synchronious signing is not supported with Trezor.'')
   \<and> isSchemaSupported this s = (s = ECDSAwithSHA256)
   \<and> (s \<noteq> ECDSAwithSHA256 \<longrightarrow>
        signAsync this m (Some s) pkId reads calls =
          (Inl (Error ''Signature schema does not match key type.''), calls))
   \<and> (\<exists>e. signAsync this (MsgString str) schema pkId reads calls = (Inl e, calls))
   \<and> (schema = None \<or> schema = Some ECDSAwithSHA256 \<longrightarrow>
        signAsync this (MsgString str) schema pkId reads calls =
          (Inl (Error ''Signing only message is not supported. Use Signable object instead.''),
           calls))"
  by (auto simp: sign_def isSchemaSupported_def signAsync_def Let_def split: option.splits)

theorem unsupported_requests_fail_witness:
  "OtherScheme ''SM2withSM3'' \<noteq> ECDSAwithSHA256
   \<and> signAsync (createExisting 0 ''02ab'') (MsgSignable test_transfer)
        (Some (OtherScheme ''SM2withSM3'')) None [Some test_device] [] =
        (Inl (Error ''Signature schema does not match key type.''), [])
   \<and> signAsync (createExisting 0 ''02ab'') (MsgString ''deadbeef'') None None
        [Some test_device] [] =
        (Inl (Error ''Signing only message is not supported. Use Signable object instead.''), [])
   \<and> sign (createExisting 0 ''02ab'') (MsgSignable test_transfer) None None =
        Inl (Error ''Synchronious signing is not supported with Trezor.'')"
  using unsupported_requests_fail [of "createExisting 0 ''02ab''" "MsgSignable test_transfer"
      None None "OtherScheme ''SM2withSM3''" "[Some test_device]" "[]" "''deadbeef''"]
  by simp

section \<open>Signables that are not transactions\<close>

text \<open>
  Claim C7, as amended. For every signable that fails the shape check of
  \<open>isTransaction\<close> (version, type and payload all present), \<open>computesSignature\<close> fails
  and issues no typed call. The device wait and the opening of the session come first:
  when either fails, the operation fails with that error; when a device is handed over
  and its session opens, it fails with the error "Unsupported Signable implementation.
  Only Transaction is supported.".
\<close>

theorem computesSignature_rejects_non_transaction:
  assumes "\<not> isTransaction signable"
  shows "snd (computesSignature reads i signable calls) = calls
    \<and> (\<exists>e. fst (computesSignature reads i signable calls) = Inl e)
    \<and> (\<forall>e. getDeviceWithTimout reads = Inl e \<longrightarrow>
          fst (computesSignature reads i signable calls) = Inl e)
    \<and> (\<forall>dev e. getDeviceWithTimout reads = Inr dev \<and> waitForSession dev = Inl e \<longrightarrow>
          fst (computesSignature reads i signable calls) = Inl e)
    \<and> (\<forall>dev session. getDeviceWithTimout reads = Inr dev \<and> waitForSession dev = Inr session \<longrightarrow>
          fst (computesSignature reads i signable calls) =
            Inl (Error ''Unsupported Signable implementation. Only Transaction is supported.''))"
  using assms
  by (auto simp: computesSignature_def waitForSessionAndRun_def Let_def split: sum.splits)

theorem computesSignature_rejects_non_transaction_witness:
  "\<not> isTransaction test_message
   \<and> computesSignature [Some test_device] 0 test_message [] =
       (Inl (Error ''Unsupported Signable implementation. Only Transaction is supported.''), [])"
proof -
  have h: "\<not> isTransaction test_message"
    by (simp add: isTransaction_def test_message_def)
  have d: "getDeviceWithTimout [Some test_device] = Inr test_device"
    by (simp add: getDeviceWithTimout_def)
  have s: "waitForSession test_device = Inr test_session"
    by (simp add: test_device_def)
  from computesSignature_rejects_non_transaction [OF h, of "[Some test_device]" 0 "[]"] d s
  have "snd (computesSignature [Some test_device] 0 test_message []) = []"
    and "fst (computesSignature [Some test_device] 0 test_message []) =
          Inl (Error ''Unsupported Signable implementation. Only Transaction is supported.'')"
    by blast+
  with h show ?thesis by (simp add: prod_eq_iff)
qed

text \<open>
  Claim C7 as stated fails: with no device connected, a signable that is not a
  transaction is answered with the timeout error of the device wait, not with the
  unsupported-signable error.
\<close>

theorem unsupported_signable_counterexample:
  "\<not> isTransaction test_message
   \<and> fst (computesSignature [None] 0 test_message []) = Inl TimeoutError
   \<and> fst (computesSignature [None] 0 test_message []) \<noteq>
       Inl (Error ''unsupported signable; only transaction objects are supported'')"
  by (simp add: isTransaction_def test_message_def computesSignature_def getDeviceWithTimout_def)

section \<open>Encryption and decryption of a hardware key\<close>

text \<open>
  Claim C9. For every key adapter and all arguments, \<open>encrypt\<close> and \<open>decrypt\<close> return
  the adapter they were called on; its index and its cached public key are the same.
\<close>

theorem encrypt_decrypt_identity:
  "encrypt this keyphrase address salt params = this
   \<and> decrypt this keyphrase address salt params = this
   \<and> index (encrypt this keyphrase address salt params) = index this
   \<and> publicKey (encrypt this keyphrase address salt params) = publicKey this
   \<and> index (decrypt this keyphrase address salt params) = index this
   \<and> publicKey (decrypt this keyphrase address salt params) = publicKey this"
  by (simp add: encrypt_def decrypt_def)

section \<open>The device-support probe\<close>

text \<open>
  Claim C10. \<open>isTrezorSupported\<close> never rejects: it always returns a boolean. It
  returns true when the device wait hands over a device, and false when the wait fails,
  whatever the error (which it prints and drops); a wait that ends with no device read
  fails with the timeout error, so the probe returns false then.
\<close>

theorem isTrezorSupported_total:
  "(\<exists>b. fst (isTrezorSupported reads console) = Inr b)
   \<and> (\<forall>dev. getDeviceWithTimout reads = Inr dev \<longrightarrow>
         isTrezorSupported reads console = (Inr True, console))
   \<and> (\<forall>e. getDeviceWithTimout reads = Inl e \<longrightarrow>
         isTrezorSupported reads console = (Inr False, console @ [e]))
   \<and> (getDevice reads = None \<longrightarrow>
         isTrezorSupported reads console = (Inr False, console @ [TimeoutError]))"
  by (auto simp: isTrezorSupported_def getDeviceWithTimout_def split: sum.splits option.splits)

theorem isTrezorSupported_total_witness:
  "getDeviceWithTimout [Some test_device] = Inr test_device
   \<and> isTrezorSupported [Some test_device] [] = (Inr True, [])
   \<and> getDeviceWithTimout [None, None] = Inl TimeoutError
   \<and> isTrezorSupported [None, None] [] = (Inr False, [TimeoutError])"
  using isTrezorSupported_total [of "[Some test_device]" "[]"]
    isTrezorSupported_total [of "[None, None]" "[]"]
  by (simp add: getDeviceWithTimout_def)

end
